theory Spec2Isabelle
  imports Complex_Main
begin

section \<open>Numbers, strings and the clock\<close>

text \<open>
  The ledger of \<^verbatim>\<open>agents/utils/portfolio.py\<close> computes with Python floats. They are
  modelled as real numbers: every value a float can hold (NaN and the infinities apart) is
  a real, and the arithmetic is the exact one, so rounding is outside the model.

  Python's \<^verbatim>\<open>max(a, b)\<close> keeps the first argument unless the second is greater,
  \<^verbatim>\<open>min(a, b)\<close> keeps the first unless the second is smaller.
\<close>

definition max_py :: "real \<Rightarrow> real \<Rightarrow> real" where
  "max_py a b = (if b > a then b else a)"

definition min_py :: "real \<Rightarrow> real \<Rightarrow> real" where
  "min_py a b = (if b < a then b else a)"

text \<open>
  \<^verbatim>\<open>str.upper()\<close> on ASCII text: the letters a to z go to A to Z, every other
  character stays.
\<close>

definition upper_char :: "char \<Rightarrow> char" where
  "upper_char c =
     (case map_of (zip ''abcdefghijklmnopqrstuvwxyz'' ''ABCDEFGHIJKLMNOPQRSTUVWXYZ'') c of
        None \<Rightarrow> c
      | Some u \<Rightarrow> u)"

definition upper :: "string \<Rightarrow> string" where
  "upper s = map upper_char s"

text \<open>
  \<^verbatim>\<open>datetime.now()\<close> reads the clock; a reading is an argument of every operation
  that takes one. An operation that reads the clock more than once (for the id, for the
  opening or closing time and for the time stamp of the saved file) is given one reading
  for all of them. \<^verbatim>\<open>strftime('%Y%m%d_%H%M%S')\<close> prints the year on four digits and
  month, day, hour, minute and second on two, and drops the microseconds.
\<close>

record datetime =
  year :: nat
  month :: nat
  day :: nat
  hour :: nat
  minute :: nat
  second :: nat
  microsecond :: nat

definition digit :: "nat \<Rightarrow> char" where
  "digit n = ''0123456789'' ! (n mod 10)"

definition pad2 :: "nat \<Rightarrow> string" where
  "pad2 n = [digit (n div 10), digit n]"

definition pad4 :: "nat \<Rightarrow> string" where
  "pad4 n = [digit (n div 1000), digit (n div 100), digit (n div 10), digit n]"

definition strftime_Ymd_HMS :: "datetime \<Rightarrow> string" where
  "strftime_Ymd_HMS t =
     pad4 (year t) @ pad2 (month t) @ pad2 (day t) @ ''_'' @
     pad2 (hour t) @ pad2 (minute t) @ pad2 (second t)"


section \<open>The ledger: \<^verbatim>\<open>PortfolioManager\<close>\<close>

text \<open>
  A trade is a dictionary read with \<^verbatim>\<open>trade.get(key, default)\<close>: a field is absent
  (\<open>None\<close>) or holds a value of the type the docstring of \<^verbatim>\<open>apply_trade\<close> gives it.
\<close>

record trade =
  t_side :: "string option"
  t_price :: "real option"
  t_size :: "real option"
  t_notional :: "real option"
  t_event_title :: "string option"
  t_market_question :: "string option"
  t_market_url :: "string option"

text \<open>The position dictionary built by \<^verbatim>\<open>apply_trade\<close>, key by key.\<close>

record position =
  pid :: string
  event_title :: string
  market_question :: string
  side :: string
  entry_price :: real
  size_fraction :: real
  notional :: real
  qty :: real
  opened_at :: datetime

text \<open>
  The file at \<^verbatim>\<open>storage_path\<close>. It is absent, or \<^verbatim>\<open>json.load\<close> fails on it (or
  gives something that is no object, so that \<^verbatim>\<open>data.get\<close> raises), or it holds an
  object. A field of the object is missing, or has a value that the conversion
  \<^verbatim>\<open>float(...)\<close> or \<^verbatim>\<open>list(...)\<close> rejects, or a value it accepts.
  Writing the file is taken to succeed.
\<close>

datatype 'a field = Missing | Bad | Good 'a

datatype stored =
    Absent
  | Undecodable
  | Document "real field" "position list field" "datetime option"

record portfolio =
  storage :: stored
  current_balance :: real
  positions :: "position list"
  last_updated :: datetime
  loaded :: bool

definition save :: "portfolio \<Rightarrow> datetime \<Rightarrow> portfolio" where
  "save s now =
     s\<lparr>storage := Document (Good (current_balance s)) (Good (positions s)) (Some now)\<rparr>"

text \<open>
  \<^verbatim>\<open>load\<close>: nothing happens when the file does not exist. The assignments of the
  \<^verbatim>\<open>try\<close> block run in order, and the handler saves the state as it is when one of
  them raises.
\<close>

definition load :: "portfolio \<Rightarrow> datetime \<Rightarrow> portfolio" where
  "load s now =
     (case storage s of
        Absent \<Rightarrow> s
      | Undecodable \<Rightarrow> save s now
      | Document b ps lu \<Rightarrow>
          (case b of
             Bad \<Rightarrow> save s now
           | _ \<Rightarrow>
              (let s1 = s\<lparr>current_balance :=
                           (case b of Good x \<Rightarrow> x | _ \<Rightarrow> current_balance s)\<rparr>
               in case ps of
                    Bad \<Rightarrow> save s1 now
                  | _ \<Rightarrow>
                     s1\<lparr>positions := (case ps of Good xs \<Rightarrow> xs | _ \<Rightarrow> []),
                        last_updated := (case lu of Some t \<Rightarrow> t | None \<Rightarrow> last_updated s1),
                        loaded := True\<rparr>)))"

text \<open>\<^verbatim>\<open>PortfolioManager.__init__\<close>: the defaults, then \<^verbatim>\<open>load\<close>.\<close>

definition init :: "stored \<Rightarrow> real \<Rightarrow> datetime \<Rightarrow> portfolio" where
  "init file initial_balance now =
     load \<lparr>storage = file, current_balance = initial_balance, positions = [],
           last_updated = now, loaded = False\<rparr> now"

definition get_balance :: "portfolio \<Rightarrow> real" where
  "get_balance s = current_balance s"

definition get_positions :: "portfolio \<Rightarrow> position list" where
  "get_positions s = positions s"

definition apply_trade :: "portfolio \<Rightarrow> trade \<Rightarrow> datetime \<Rightarrow> portfolio" where
  "apply_trade s tr now =
     (let side_v = upper (case t_side tr of None \<Rightarrow> [] | Some x \<Rightarrow> x);
          price = (case t_price tr of None \<Rightarrow> 0.5 | Some p \<Rightarrow> p);
          size_v = (case t_size tr of None \<Rightarrow> 0 | Some z \<Rightarrow> z)
      in if size_v \<le> 0 then s
         else
          (let notional_v = max_py 0 (min_py 1 size_v) * current_balance s;
               opened = (\<lambda>qty_v.
                  save (s\<lparr>current_balance := current_balance s - notional_v,
                          positions := positions s @
                            [\<lparr>pid = ''pos_'' @ strftime_Ymd_HMS now,
                              event_title =
                                (case t_event_title tr of None \<Rightarrow> ''Unknown'' | Some e \<Rightarrow> e),
                              market_question =
                                (case t_market_question tr of None \<Rightarrow> ''Unknown'' | Some q \<Rightarrow> q),
                              side = side_v,
                              entry_price = price,
                              size_fraction = size_v,
                              notional = notional_v,
                              qty = qty_v,
                              opened_at = now\<rparr>]\<rparr>) now)
           in if side_v = ''BUY'' then opened (notional_v / max_py price 0.01)
              else if side_v = ''SELL'' then opened (notional_v / max_py (1 - price) 0.01)
              else s))"

text \<open>The summary dictionary of \<^verbatim>\<open>mark_to_market\<close>.\<close>

record summary =
  m_positions :: nat
  m_unrealized_pnl :: real
  m_balance :: real

fun unrealized_loop :: "real \<Rightarrow> position list \<Rightarrow> real \<Rightarrow> real" where
  "unrealized_loop current_price [] unrealized = unrealized"
| "unrealized_loop current_price (pos # rest) unrealized =
     unrealized_loop current_price rest
       (unrealized + notional pos *
          (if side pos = ''BUY'' then current_price - entry_price pos
           else (1 - current_price) - (1 - entry_price pos)))"

definition mark_to_market :: "portfolio \<Rightarrow> real option \<Rightarrow> summary \<times> portfolio" where
  "mark_to_market s current_price =
     (let summary_v = \<lparr>m_positions = length (positions s), m_unrealized_pnl = 0,
                       m_balance = current_balance s\<rparr>
      in case current_price of
           None \<Rightarrow> (summary_v, s)
         | Some cp \<Rightarrow>
             if positions s = [] then (summary_v, s)
             else (summary_v\<lparr>m_unrealized_pnl := unrealized_loop cp (positions s) 0\<rparr>, s))"

text \<open>The result dictionary of \<^verbatim>\<open>close_position\<close>.\<close>

record closed =
  c_position_id :: string
  c_side :: string
  c_entry_price :: real
  c_exit_price :: real
  c_notional :: real
  c_realized_pnl :: real
  c_closed_at :: datetime

text \<open>
  The loop of \<^verbatim>\<open>close_position\<close> stops at the first index whose position carries the
  id; \<^verbatim>\<open>del self.positions[idx]\<close> removes the entry at that index.
\<close>

fun first_index :: "string \<Rightarrow> position list \<Rightarrow> nat option" where
  "first_index position_id [] = None"
| "first_index position_id (pos # rest) =
     (if pid pos = position_id then Some 0
      else map_option Suc (first_index position_id rest))"

definition del_at :: "nat \<Rightarrow> 'a list \<Rightarrow> 'a list" where
  "del_at idx xs = take idx xs @ drop (Suc idx) xs"

definition close_position ::
  "portfolio \<Rightarrow> string \<Rightarrow> real \<Rightarrow> datetime \<Rightarrow> closed option \<times> portfolio" where
  "close_position s position_id exit_price now =
     (case first_index position_id (positions s) of
        None \<Rightarrow> (None, s)
      | Some idx \<Rightarrow>
         (let pos = positions s ! idx;
              entry = entry_price pos;
              notional_v = notional pos;
              change = (if side pos = ''BUY'' then exit_price - entry
                        else (1 - exit_price) - (1 - entry));
              realized = notional_v * change
          in (Some \<lparr>c_position_id = position_id, c_side = side pos, c_entry_price = entry,
                     c_exit_price = exit_price, c_notional = notional_v,
                     c_realized_pnl = realized, c_closed_at = now\<rparr>,
              save (s\<lparr>current_balance := current_balance s + (notional_v + realized),
                      positions := del_at idx (positions s)\<rparr>) now)))"

section \<open>Paper mode: \<^verbatim>\<open>PaperTrader._execute_trade\<close>\<close>

text \<open>
  The execution parameters of \<^verbatim>\<open>PaperTrader.__init__\<close>. The two calls of
  \<^verbatim>\<open>random.uniform\<close> in \<^verbatim>\<open>_execute_trade\<close> are arguments of the model:
  \<open>fill_fraction\<close> is the draw from \<open>[min_fill, max_fill]\<close>, \<open>price_change\<close> the draw
  from \<open>[-0.08, 0.08]\<close>.
\<close>

record paper_trader =
  commission_bps :: real
  slippage_bps :: real
  min_fill :: real
  max_fill :: real

definition paper_init :: "real option \<Rightarrow> real option \<Rightarrow> real \<Rightarrow> real \<Rightarrow> paper_trader" where
  "paper_init commission slippage min_fill_arg max_fill_arg =
     (let mn = max_py 0.1 (min_py min_fill_arg 1)
      in \<lparr>commission_bps = (case commission of None \<Rightarrow> 10 | Some c \<Rightarrow> c),
          slippage_bps = (case slippage of None \<Rightarrow> 20 | Some sl \<Rightarrow> sl),
          min_fill = mn,
          max_fill = max_py mn (min_py max_fill_arg 1)\<rparr>)"

record exec_result =
  r_event_title :: string
  r_side :: string
  r_entry_price :: real
  r_exit_price :: real
  r_size :: real
  r_pnl :: real
  r_price_change :: real
  r_execution_time :: datetime
  r_trade_id :: string
  r_market_url :: string
  r_commission_paid :: "real option"
  r_fill_fraction :: "real option"
  r_portfolio_balance :: "real option"

text \<open>The price after slippage (the line that computes \<^verbatim>\<open>exec_price\<close>).\<close>

definition exec_price :: "paper_trader \<Rightarrow> string \<Rightarrow> real \<Rightarrow> real" where
  "exec_price pt side_v base_price =
     (let slip = slippage_bps pt / 10000
      in if side_v = ''BUY'' then min_py 0.99 (base_price + slip)
         else max_py 0.01 (base_price - slip))"

text \<open>The pseudo exit price drawn around \<^verbatim>\<open>exec_price\<close>.\<close>

definition exit_price_of :: "string \<Rightarrow> real \<Rightarrow> real \<Rightarrow> real" where
  "exit_price_of side_v exec_p price_change =
     max_py 0.01 (min_py 0.99
       (if side_v = ''BUY'' then exec_p + price_change else exec_p - price_change))"

text \<open>
  The open half of \<^verbatim>\<open>_execute_trade\<close>, for an intent that passed the guard: the copy
  of the trade with the executed price and the size scaled by the fill, handed to
  \<^verbatim>\<open>PortfolioManager.apply_trade\<close>.
\<close>

definition paper_open ::
  "paper_trader \<Rightarrow> portfolio \<Rightarrow> trade \<Rightarrow> real \<Rightarrow> datetime \<Rightarrow> portfolio" where
  "paper_open pt s tr fill_fraction now =
     (let side_v = upper (case t_side tr of None \<Rightarrow> ''UNKNOWN'' | Some x \<Rightarrow> x);
          size_v = (case t_size tr of None \<Rightarrow> 0 | Some z \<Rightarrow> z);
          base_price = (case t_price tr of None \<Rightarrow> 0.5 | Some p \<Rightarrow> p)
      in apply_trade s
           (tr\<lparr>t_price := Some (exec_price pt side_v base_price),
               t_size := Some (size_v * fill_fraction)\<rparr>) now)"

definition execute_trade ::
  "paper_trader \<Rightarrow> portfolio \<Rightarrow> trade \<Rightarrow> real \<Rightarrow> real \<Rightarrow> datetime \<Rightarrow>
     exec_result \<times> portfolio" where
  "execute_trade pt s tr fill_fraction price_change now =
     (let side_v = upper (case t_side tr of None \<Rightarrow> ''UNKNOWN'' | Some x \<Rightarrow> x);
          size_v = (case t_size tr of None \<Rightarrow> 0 | Some z \<Rightarrow> z);
          base_price = (case t_price tr of None \<Rightarrow> 0.5 | Some p \<Rightarrow> p);
          notional_v = (case t_notional tr of None \<Rightarrow> 0 | Some n \<Rightarrow> n);
          title = (case t_event_title tr of None \<Rightarrow> ''Unknown'' | Some e \<Rightarrow> e);
          url = (case t_market_url tr of None \<Rightarrow> [] | Some u \<Rightarrow> u);
          trade_id = ''paper_'' @ strftime_Ymd_HMS now
      in if size_v \<le> 0 \<or> notional_v \<le> 0 \<or> side_v \<notin> {''BUY'', ''SELL''} then
           (\<lparr>r_event_title = title, r_side = side_v, r_entry_price = base_price,
             r_exit_price = base_price, r_size = size_v, r_pnl = 0, r_price_change = 0,
             r_execution_time = now, r_trade_id = trade_id, r_market_url = url,
             r_commission_paid = None, r_fill_fraction = None,
             r_portfolio_balance = None\<rparr>, s)
         else
          (let exec_p = exec_price pt side_v base_price;
               exec_notional = notional_v * fill_fraction;
               fee = exec_notional * (commission_bps pt / 10000);
               s1 = paper_open pt s tr fill_fraction now;
               exit_p = exit_price_of side_v exec_p price_change;
               move = (if side_v = ''BUY'' then exit_p - exec_p
                       else (1 - exit_p) - (1 - exec_p));
               pnl = exec_notional * move - fee;
               s2 = (if positions s1 = [] then s1
                     else snd (close_position s1 (pid (last (positions s1))) exit_p now))
           in (\<lparr>r_event_title = title, r_side = side_v, r_entry_price = exec_p,
                r_exit_price = exit_p, r_size = size_v * fill_fraction, r_pnl = pnl,
                r_price_change = move, r_execution_time = now, r_trade_id = trade_id,
                r_market_url = url, r_commission_paid = Some fee,
                r_fill_fraction = Some fill_fraction,
                r_portfolio_balance = Some (get_balance s2)\<rparr>, s2)))"


section \<open>Dry-run mode: \<^verbatim>\<open>DryRunTrader.maintain_positions\<close>\<close>

text \<open>The two thresholds that \<^verbatim>\<open>maintain_positions\<close> reads from \<^verbatim>\<open>trading_config\<close>.\<close>

record trading_config =
  take_profit_percentage :: real
  stop_loss_percentage :: real

text \<open>
  The body of the loop for one position of the snapshot; \<open>u\<close> is the draw of
  \<^verbatim>\<open>random.uniform(-0.08, 0.08)\<close>. It gives the result of \<^verbatim>\<open>close_position\<close> when
  the position triggered and a position was closed, and the ledger.
\<close>

definition observed_price :: "position \<Rightarrow> real \<Rightarrow> real" where
  "observed_price pos u = max_py 0.01 (min_py 0.99 (entry_price pos + u))"

definition change_of :: "position \<Rightarrow> real \<Rightarrow> real" where
  "change_of pos current =
     (if side pos = ''BUY'' then current - entry_price pos
      else (1 - current) - (1 - entry_price pos))"

definition tick_position ::
  "trading_config \<Rightarrow> portfolio \<Rightarrow> position \<Rightarrow> real \<Rightarrow> datetime \<Rightarrow>
     closed option \<times> portfolio" where
  "tick_position cfg s pos u now =
     (let current = observed_price pos u;
          tp = take_profit_percentage cfg;
          sl = stop_loss_percentage cfg;
          change = change_of pos current
      in if change \<ge> tp \<or> change \<le> - sl then close_position s (pid pos) current now
         else (None, s))"

text \<open>
  The loop runs over the snapshot taken by \<^verbatim>\<open>get_positions\<close>; the draws are consumed
  one per position. The list returned holds the results for which an alert was sent.
\<close>

fun maintain_loop ::
  "trading_config \<Rightarrow> portfolio \<Rightarrow> position list \<Rightarrow> (nat \<Rightarrow> real) \<Rightarrow> datetime \<Rightarrow>
     closed list \<times> portfolio" where
  "maintain_loop cfg s [] draws now = ([], s)"
| "maintain_loop cfg s (pos # rest) draws now =
     (case tick_position cfg s pos (draws 0) now of
        (r, s1) \<Rightarrow>
          (case maintain_loop cfg s1 rest (\<lambda>n. draws (Suc n)) now of
             (cs, s2) \<Rightarrow> ((case r of None \<Rightarrow> [] | Some c \<Rightarrow> [c]) @ cs, s2)))"

definition maintain_positions ::
  "trading_config \<Rightarrow> portfolio \<Rightarrow> (nat \<Rightarrow> real) \<Rightarrow> datetime \<Rightarrow> closed list \<times> portfolio" where
  "maintain_positions cfg s draws now = maintain_loop cfg s (get_positions s) draws now"


section \<open>Sequences of operations\<close>




section \<open>Observations and concrete inputs\<close>



text \<open>Three clock readings: two within the same second, one a second later.\<close>

definition t_noon :: datetime where
  "t_noon = \<lparr>year = 2024, month = 1, day = 2, hour = 12, minute = 0, second = 0,
             microsecond = 0\<rparr>"

definition t_noon_late :: datetime where
  "t_noon_late = \<lparr>year = 2024, month = 1, day = 2, hour = 12, minute = 0, second = 0,
                  microsecond = 500000\<rparr>"

definition t_next :: datetime where
  "t_next = \<lparr>year = 2024, month = 1, day = 2, hour = 12, minute = 0, second = 1,
             microsecond = 0\<rparr>"

text \<open>A trade dictionary with the three keys of an intent, and a ledger on its first run.\<close>

definition intent :: "string \<Rightarrow> real \<Rightarrow> real \<Rightarrow> trade" where
  "intent sd p z =
     \<lparr>t_side = Some sd, t_price = Some p, t_size = Some z, t_notional = None,
      t_event_title = None, t_market_question = None, t_market_url = None\<rparr>"

definition fresh :: portfolio where
  "fresh = init Absent 100 t_noon"





text \<open>Two opens whose clock readings fall in the same second, then two closes with the id
  that both positions received.\<close>

definition twice_opened :: portfolio where
  "twice_opened =
     apply_trade (apply_trade fresh (intent ''BUY'' 0.5 0.25) t_noon)
       (intent ''BUY'' 0.5 0.25) t_noon_late"

definition close_once :: "closed option \<times> portfolio" where
  "close_once = close_position twice_opened ''pos_20240102_120000'' 0.75 t_next"

definition close_twice :: "closed option \<times> portfolio" where
  "close_twice = close_position (snd close_once) ''pos_20240102_120000'' 0.75 t_next"

text \<open>A paper trader with the constructor's defaults, and an intent for half of the balance
  with the notional the caller computed for it.\<close>

definition default_paper :: paper_trader where
  "default_paper = paper_init None None 0.6 1.0"



text \<open>The default thresholds of \<^verbatim>\<open>trading_config\<close>, a stream of draws that moves only
  the second position of a snapshot, and the stop-loss example of the specification: a BUY
  at 0.50 with a tenth of the balance.\<close>

definition thresholds :: trading_config where
  "thresholds = \<lparr>take_profit_percentage = 0.15, stop_loss_percentage = 0.05\<rparr>"

definition second_drops :: "nat \<Rightarrow> real" where
  "second_drops n = (if n = 1 then - 0.0625 else 0)"

definition opened_050 :: portfolio where
  "opened_050 = apply_trade fresh (intent ''BUY'' 0.5 0.1) t_noon"



section \<open>Evaluation on concrete inputs\<close>

lemmas clock_defs =
  strftime_Ymd_HMS_def pad2_def pad4_def digit_def t_noon_def t_noon_late_def t_next_def

lemmas text_defs = upper_def upper_char_def

lemmas ledger_defs =
  init_def load_def save_def apply_trade_def close_position_def del_at_def
  max_py_def min_py_def get_balance_def get_positions_def Let_def fresh_def intent_def

lemma id_noon: "strftime_Ymd_HMS t_noon = ''20240102_120000''"
  by (simp add: clock_defs)

lemma id_noon_late: "strftime_Ymd_HMS t_noon_late = ''20240102_120000''"
  by (simp add: clock_defs)

lemma upper_BUY: "upper ''BUY'' = ''BUY''"
  by (simp add: text_defs)

lemma upper_SELL: "upper ''SELL'' = ''SELL''"
  by (simp add: text_defs)


section \<open>Conservation\<close>


lemma first_index_None: "first_index i xs = None \<longleftrightarrow> i \<notin> pid ` set xs"
  by (induction xs) auto









section \<open>The round trip\<close>









section \<open>Position ids and double closes\<close>

lemma twice_opened_positions:
  "positions twice_opened =
     [\<lparr>pid = ''pos_20240102_120000'', event_title = ''Unknown'', market_question = ''Unknown'',
       side = ''BUY'', entry_price = 0.5, size_fraction = 0.25, notional = 25, qty = 50,
       opened_at = t_noon\<rparr>,
      \<lparr>pid = ''pos_20240102_120000'', event_title = ''Unknown'', market_question = ''Unknown'',
       side = ''BUY'', entry_price = 0.5, size_fraction = 0.25, notional = 18.75, qty = 37.5,
       opened_at = t_noon_late\<rparr>]"
  by (simp add: twice_opened_def ledger_defs id_noon id_noon_late upper_BUY)

lemma twice_opened_balance: "current_balance twice_opened = 56.25"
  by (simp add: twice_opened_def ledger_defs upper_BUY)

lemma close_once_state:
  "current_balance (snd close_once) = 87.5"
  "positions (snd close_once) =
     [\<lparr>pid = ''pos_20240102_120000'', event_title = ''Unknown'', market_question = ''Unknown'',
       side = ''BUY'', entry_price = 0.5, size_fraction = 0.25, notional = 18.75, qty = 37.5,
       opened_at = t_noon_late\<rparr>]"
  by (simp_all add: close_once_def close_position_def twice_opened_positions
      twice_opened_balance Let_def save_def del_at_def)

text \<open>A close with an id that no open position carries returns nothing and changes nothing;
  when the ids of the ledger are distinct, that is what a second close meets.\<close>

lemma close_absent:
  "first_index i (positions s) = None \<Longrightarrow> close_position s i p now = (None, s)"
  by (simp add: close_position_def)

lemma first_index_del_at:
  "distinct (map pid xs) \<Longrightarrow> first_index i xs = Some k \<Longrightarrow> first_index i (del_at k xs) = None"
proof (induction xs arbitrary: k)
  case Nil
  then show ?case by simp
next
  case (Cons x xs)
  show ?case
  proof (cases "pid x = i")
    case True
    with Cons.prems have "k = 0" and "i \<notin> pid ` set xs" by auto
    then show ?thesis by (simp add: del_at_def first_index_None)
  next
    case False
    with Cons.prems obtain j where j: "first_index i xs = Some j" "k = Suc j" by auto
    with Cons.prems Cons.IH [of j] have "first_index i (del_at j xs) = None" by simp
    with False j show ?thesis by (simp add: del_at_def)
  qed
qed

lemma close_twice_distinct:
  assumes "distinct (map pid (positions s))" and "close_position s i p now = (r, s1)"
  shows "close_position s1 i p' now' = (None, s1)"
proof (cases "first_index i (positions s)")
  case None
  with assms show ?thesis by (simp add: close_position_def)
next
  case (Some k)
  with assms(2) have "positions s1 = del_at k (positions s)"
    by (auto simp: close_position_def Let_def save_def)
  with first_index_del_at [OF assms(1) Some] show ?thesis
    by (simp add: close_absent)
qed

text \<open>
  C3, on the code. Two positions opened within one second carry the same id. The first close
  with that id takes the balance from 56.25 to 87.5; the second close with the same id finds
  the other position, returns a result with realized profit 4.6875 and takes the balance to
  110.9375: the balance changed twice.
\<close>

theorem double_close_same_second:
  "current_balance twice_opened = 56.25 \<and>
   current_balance (snd close_once) = 87.5 \<and>
   map_option c_realized_pnl (fst close_twice) = Some 4.6875 \<and>
   current_balance (snd close_twice) = 110.9375"
  by (simp add: twice_opened_balance close_once_state close_twice_def close_position_def
      Let_def save_def del_at_def)

text \<open>
  C4, on the code. Two opens at different clock readings of the same second give two
  positions with one id.
\<close>

theorem same_second_same_id:
  "t_noon \<noteq> t_noon_late \<and>
   map pid (positions twice_opened) = [''pos_20240102_120000'', ''pos_20240102_120000''] \<and>
   \<not> distinct (map pid (positions twice_opened))"
  by (simp add: twice_opened_positions t_noon_def t_noon_late_def)


section \<open>Mark to market without a price\<close>

text \<open>
  C10. Without an observed price, \<^verbatim>\<open>mark_to_market\<close> reports the number of open positions,
  the current balance and an unrealized profit or loss of 0, whatever positions are open,
  and leaves the ledger as it was.
\<close>

theorem mark_to_market_no_price:
  "mark_to_market s None =
     (\<lparr>m_positions = length (positions s), m_unrealized_pnl = 0,
       m_balance = current_balance s\<rparr>, s)"
  by (simp add: mark_to_market_def)

theorem mark_to_market_no_price_witness:
  "fst (mark_to_market twice_opened None) =
     \<lparr>m_positions = 2, m_unrealized_pnl = 0, m_balance = 56.25\<rparr> \<and>
   snd (mark_to_market twice_opened None) = twice_opened \<and>
   m_unrealized_pnl (fst (mark_to_market twice_opened (Some 0.75))) = 10.9375"
  using mark_to_market_no_price [of twice_opened]
  by (simp add: twice_opened_positions twice_opened_balance mark_to_market_def)


section \<open>What the paper-mode open debits\<close>

lemma upper_UNKNOWN: "upper ''UNKNOWN'' = ''UNKNOWN''"
  by (simp add: text_defs)








section \<open>The tick step\<close>

text \<open>When the ids of the ledger are distinct, the loop body closes the position it looks at
  exactly when its change reaches a threshold, at the observed price.\<close>

lemma first_index_distinct:
  "distinct (map pid xs) \<Longrightarrow> pos \<in> set xs \<Longrightarrow>
     \<exists>k. first_index (pid pos) xs = Some k \<and> xs ! k = pos \<and> del_at k xs = remove1 pos xs"
proof (induction xs)
  case Nil
  then show ?case by simp
next
  case (Cons x xs)
  show ?case
  proof (cases "pid x = pid pos")
    case True
    with Cons.prems have "pos = x" by force
    with True show ?thesis by (simp add: del_at_def)
  next
    case False
    with Cons.prems have "pos \<in> set xs" and "distinct (map pid xs)" and "x \<noteq> pos" by auto
    with Cons.IH obtain k where
      "first_index (pid pos) xs = Some k" "xs ! k = pos" "del_at k xs = remove1 pos xs"
      by blast
    with False \<open>x \<noteq> pos\<close> show ?thesis by (simp add: del_at_def)
  qed
qed

lemma tick_position_distinct:
  assumes "distinct (map pid (positions s))" and "pos \<in> set (positions s)"
  shows "tick_position cfg s pos u now =
     (if change_of pos (observed_price pos u) \<ge> take_profit_percentage cfg
         \<or> change_of pos (observed_price pos u) \<le> - stop_loss_percentage cfg
      then (Some \<lparr>c_position_id = pid pos, c_side = side pos, c_entry_price = entry_price pos,
                  c_exit_price = observed_price pos u, c_notional = notional pos,
                  c_realized_pnl = notional pos * change_of pos (observed_price pos u),
                  c_closed_at = now\<rparr>,
            save (s\<lparr>current_balance := current_balance s
                      + (notional pos + notional pos * change_of pos (observed_price pos u)),
                    positions := remove1 pos (positions s)\<rparr>) now)
      else (None, s))"
proof -
  from first_index_distinct [OF assms] obtain k where
    "first_index (pid pos) (positions s) = Some k" "positions s ! k = pos"
    "del_at k (positions s) = remove1 pos (positions s)"
    by blast
  then show ?thesis
    by (simp add: tick_position_def close_position_def change_of_def Let_def)
qed

lemma opened_050_positions:
  "positions opened_050 =
     [\<lparr>pid = ''pos_20240102_120000'', event_title = ''Unknown'', market_question = ''Unknown'',
       side = ''BUY'', entry_price = 0.5, size_fraction = 0.1, notional = 10, qty = 20,
       opened_at = t_noon\<rparr>]"
  by (simp add: opened_050_def ledger_defs id_noon upper_BUY)

text \<open>The stop-loss example: a BUY opened at 0.50 closes on the observed price 0.44 with
  realized profit or loss of notional times - 0.06.\<close>

lemma stop_loss_example:
  "observed_price (hd (positions opened_050)) (- 0.06) = 0.44 \<and>
   map_option c_realized_pnl
     (fst (tick_position thresholds opened_050 (hd (positions opened_050)) (- 0.06) t_next))
     = Some (10 * (- 0.06)) \<and>
   positions (snd (tick_position thresholds opened_050 (hd (positions opened_050)) (- 0.06) t_next))
     = []"
  by (simp add: opened_050_positions tick_position_def observed_price_def change_of_def
      thresholds_def max_py_def min_py_def Let_def close_position_def save_def del_at_def)

text \<open>
  C6, on the code. The ledger holds two positions opened within one second, hence with one
  id, both BUY at 0.50. The first is observed at 0.50 (change 0, no threshold reached), the
  second at 0.4375 (change - 0.0625, beyond the stop loss of 0.05). The tick step closes the
  first position, of notional 25, and leaves the second, of notional 18.75, open.
\<close>

theorem tick_closes_other_position:
  "map notional (positions twice_opened) = [25, 18.75] \<and>
   change_of (positions twice_opened ! 0)
     (observed_price (positions twice_opened ! 0) (second_drops 0)) = 0 \<and>
   change_of (positions twice_opened ! 1)
     (observed_price (positions twice_opened ! 1) (second_drops 1)) = - 0.0625 \<and>
   map c_notional (fst (maintain_positions thresholds twice_opened second_drops t_next)) = [25] \<and>
   map notional (positions (snd (maintain_positions thresholds twice_opened second_drops t_next)))
     = [18.75]"
  by (simp add: maintain_positions_def get_positions_def twice_opened_positions
      tick_position_def observed_price_def change_of_def thresholds_def second_drops_def
      max_py_def min_py_def Let_def close_position_def twice_opened_balance save_def del_at_def)

section \<open>Invalid intents\<close>

text \<open>
  C7. For a trade intent whose side (upper-cased, as the code reads it) is neither BUY nor
  SELL, or whose size fraction is not positive, \<^verbatim>\<open>apply_trade\<close> returns with the ledger
  as it was, and the paper-mode \<^verbatim>\<open>_execute_trade\<close> reports a fill of profit 0 and leaves
  the ledger as it was. Both are total on such intents: nothing is raised.
\<close>

theorem invalid_intent_noop:
  assumes "upper (case t_side tr of None \<Rightarrow> ''UNKNOWN'' | Some x \<Rightarrow> x) \<notin> {''BUY'', ''SELL''}
           \<or> (case t_size tr of None \<Rightarrow> 0 | Some z \<Rightarrow> z) \<le> 0"
  shows "apply_trade s tr now = s \<and>
         snd (execute_trade pt s tr fill price_change now) = s \<and>
         r_pnl (fst (execute_trade pt s tr fill price_change now)) = 0"
proof -
  have a: "apply_trade s tr now = s"
    using assms by (cases "t_side tr") (auto simp: apply_trade_def Let_def text_defs)
  have e: "execute_trade pt s tr fill price_change now
             = (fst (execute_trade pt s tr fill price_change now), s)
           \<and> r_pnl (fst (execute_trade pt s tr fill price_change now)) = 0"
    using assms by (auto simp: execute_trade_def Let_def)
  from a e show ?thesis by (metis snd_conv)
qed

theorem invalid_intent_noop_witness:
  "upper ''hold'' = ''HOLD'' \<and>
   apply_trade twice_opened (intent ''hold'' 0.5 0.25) t_next = twice_opened \<and>
   snd (execute_trade default_paper twice_opened (intent ''hold'' 0.5 0.25) 0.75 0.0625 t_next)
     = twice_opened \<and>
   apply_trade twice_opened (intent ''BUY'' 0.5 (- 1)) t_next = twice_opened"
  using invalid_intent_noop [of "intent ''hold'' 0.5 0.25" twice_opened t_next default_paper "0.75" "0.0625"]
    invalid_intent_noop [of "intent ''BUY'' 0.5 (- 1)" twice_opened t_next default_paper "0.75" "0.0625"]
  by (simp add: intent_def text_defs)

section \<open>Price bounds\<close>












section \<open>Loading the ledger\<close>

text \<open>
  C9, as amended. When the document is absent, the constructor leaves the balance at the
  configured default with no positions and writes nothing. When the document cannot be
  decoded, or its balance cannot be converted, the constructor keeps the default balance and
  no positions and persists them, and a later constructor, whatever its own default, reads
  that state back.
\<close>

theorem load_recovery:
  "current_balance (init Absent b now) = b \<and> positions (init Absent b now) = [] \<and>
   storage (init Absent b now) = Absent \<and>
   current_balance (init Undecodable b now) = b \<and> positions (init Undecodable b now) = [] \<and>
   storage (init Undecodable b now) = Document (Good b) (Good []) (Some now) \<and>
   current_balance (init (Document Bad ps lu) b now) = b \<and>
   positions (init (Document Bad ps lu) b now) = [] \<and>
   storage (init (Document Bad ps lu) b now) = Document (Good b) (Good []) (Some now) \<and>
   current_balance (init (storage (init Undecodable b now)) b' now') = b \<and>
   positions (init (storage (init Undecodable b now)) b' now') = [] \<and>
   current_balance (init (storage (init (Document Bad ps lu) b now)) b' now') = b \<and>
   positions (init (storage (init (Document Bad ps lu) b now)) b' now') = []"
  by (simp add: init_def load_def save_def)

theorem load_recovery_witness:
  "current_balance (init Undecodable 100 t_noon) = 100 \<and>
   storage (init Undecodable 100 t_noon) = Document (Good 100) (Good []) (Some t_noon) \<and>
   current_balance (init (storage (init Undecodable 100 t_noon)) 50 t_next) = 100 \<and>
   storage (init Absent 100 t_noon) = Absent"
  using load_recovery [of 100 t_noon Missing None 50 t_next]
  by blast

text \<open>On a first run nothing is written: a later constructor with another default starts
  from its own default.\<close>

theorem absent_not_persisted:
  "storage (init Absent 100 t_noon) = Absent \<and>
   current_balance (init (storage (init Absent 100 t_noon)) 50 t_next) = 50 \<and>
   \<not> current_balance (init (storage (init Absent 100 t_noon)) 50 t_next) = 100"
  by (simp add: init_def load_def)

text \<open>A document whose balance converts and whose positions do not: the balance of the
  file is kept, and saved with no positions.\<close>

lemma load_keeps_file_balance:
  "current_balance (init (Document (Good x) Bad lu) b now) = x \<and>
   storage (init (Document (Good x) Bad lu) b now) = Document (Good x) (Good []) (Some now)"
  by (simp add: init_def load_def save_def)

end
